theory Spec2Isabelle
  imports Complex_Main "HOL-Library.Char_ord" "HOL-Library.List_Lexorder"
    "HOL-Library.Product_Lexorder"
begin

section \<open>Python floats\<close>

text \<open>
  The values in \<open>logs\<close>, \<open>delta\<close>, \<open>best_loss\<close> and \<open>best_metric\<close> are Python floats.
  The callbacks only compare them and add or subtract \<open>delta\<close>, so a float is modelled by
  its value: a finite real, one of the two infinities (\<open>float("inf")\<close>,
  \<open>float("-inf")\<close>) or NaN. Comparisons and the special cases of \<open>+\<close> and \<open>-\<close> follow
  IEEE 754 as Python does: every comparison with NaN is false and
  \<open>inf - inf\<close> is NaN. The sum and difference of two finite values are the exact ones:
  rounding to 53 bits is not modelled.
\<close>

datatype pyfloat = NegInf | Fin real | PosInf | NaN

fun flt :: "pyfloat \<Rightarrow> pyfloat \<Rightarrow> bool" where
  "flt NaN _ = False"
| "flt _ NaN = False"
| "flt PosInf _ = False"
| "flt _ NegInf = False"
| "flt NegInf _ = True"
| "flt (Fin a) PosInf = True"
| "flt (Fin a) (Fin b) = (a < b)"

definition fgt :: "pyfloat \<Rightarrow> pyfloat \<Rightarrow> bool" where
  "fgt a b = flt b a"

fun fle :: "pyfloat \<Rightarrow> pyfloat \<Rightarrow> bool" where
  "fle NaN _ = False"
| "fle _ NaN = False"
| "fle NegInf _ = True"
| "fle _ PosInf = True"
| "fle PosInf _ = False"
| "fle _ NegInf = False"
| "fle (Fin a) (Fin b) = (a \<le> b)"

fun fneg :: "pyfloat \<Rightarrow> pyfloat" where
  "fneg NaN = NaN"
| "fneg PosInf = NegInf"
| "fneg NegInf = PosInf"
| "fneg (Fin a) = Fin (- a)"

fun fadd :: "pyfloat \<Rightarrow> pyfloat \<Rightarrow> pyfloat" where
  "fadd NaN _ = NaN"
| "fadd _ NaN = NaN"
| "fadd PosInf NegInf = NaN"
| "fadd NegInf PosInf = NaN"
| "fadd PosInf _ = PosInf"
| "fadd _ PosInf = PosInf"
| "fadd NegInf _ = NegInf"
| "fadd _ NegInf = NegInf"
| "fadd (Fin a) (Fin b) = Fin (a + b)"

definition fsub :: "pyfloat \<Rightarrow> pyfloat \<Rightarrow> pyfloat" where
  "fsub a b = fadd a (fneg b)"

section \<open>Logs and keyword arguments\<close>

text \<open>
  \<open>logs\<close> is a dict from metric names to floats; the order of its keys is the order of
  insertion, which \<open>logs.keys()\<close> shows, so it is an association list. A model reaches
  the callbacks only through \<open>model.state_dict()\<close>, an ordered dict of tensors that the
  code hands to \<open>torch.save\<close> without looking inside; a tensor is its shape and its
  values. The state of the default model, \<open>nn.Sequential()\<close>, is empty.
\<close>

type_synonym logs = "(string \<times> pyfloat) list"

datatype tensor = Tensor "nat list" "real list"

type_synonym state_dict = "(string \<times> tensor) list"

record kwargs =
  kw_logs :: "logs option"
  kw_epoch :: "int option"
  kw_model :: "state_dict option"

definition logs_get :: "logs \<Rightarrow> string \<Rightarrow> pyfloat \<Rightarrow> pyfloat" where
  "logs_get lg k dflt = (case map_of lg k of None \<Rightarrow> dflt | Some v \<Rightarrow> v)"

definition logs_keys :: "logs \<Rightarrow> string list" where
  "logs_keys lg = map fst lg"

definition get_logs :: "kwargs \<Rightarrow> logs" where
  "get_logs kw = (case kw_logs kw of None \<Rightarrow> [] | Some lg \<Rightarrow> lg)"

definition get_epoch :: "kwargs \<Rightarrow> int" where
  "get_epoch kw = (case kw_epoch kw of None \<Rightarrow> 0 | Some e \<Rightarrow> e)"

definition get_model :: "kwargs \<Rightarrow> state_dict" where
  "get_model kw = (case kw_model kw of None \<Rightarrow> [] | Some sd \<Rightarrow> sd)"

section \<open>EarlyStopping\<close>

record EarlyStopping =
  patience :: int
  delta :: pyfloat
  counter :: int
  best_loss :: pyfloat
  best_epoch :: int
  metric_name :: string

definition EarlyStopping_init :: "int \<Rightarrow> pyfloat \<Rightarrow> EarlyStopping" where
  "EarlyStopping_init p d =
     \<lparr>patience = p, delta = d, counter = 0, best_loss = PosInf, best_epoch = 0,
      metric_name = ''val_loss''\<rparr>"

definition EarlyStopping_on_epoch_begin :: "EarlyStopping \<Rightarrow> kwargs \<Rightarrow> bool \<times> EarlyStopping" where
  "EarlyStopping_on_epoch_begin self kw = (False, self)"

definition EarlyStopping_on_epoch_end :: "EarlyStopping \<Rightarrow> kwargs \<Rightarrow> bool \<times> EarlyStopping" where
  "EarlyStopping_on_epoch_end self kw =
     (let lg = get_logs kw;
          val_loss = logs_get lg (metric_name self) PosInf
      in if flt val_loss (fsub (best_loss self) (delta self))
         then (False, self\<lparr>best_loss := val_loss, counter := 0\<rparr>)
         else if fgt val_loss (fadd (best_loss self) (delta self))
         then (let self' = self\<lparr>counter := counter self + 1\<rparr>
               in if counter self' \<ge> patience self' then (True, self') else (False, self'))
         else (False, self))"



text \<open>A call whose logs hold only \<open>val_loss\<close>.\<close>

definition val_loss_call :: "pyfloat \<Rightarrow> kwargs" where
  "val_loss_call v = \<lparr>kw_logs = Some [(''val_loss'', v)], kw_epoch = None, kw_model = None\<rparr>"

section \<open>Library functions the checkpoint calls\<close>

text \<open>
  \<open>os.path.join(a, b)\<close> on POSIX: a second component that starts with the separator
  replaces the first; otherwise the separator is inserted unless the first component
  is empty or already ends with it.
\<close>

definition startswith :: "string \<Rightarrow> string \<Rightarrow> bool" where
  "startswith s p = (take (length p) s = p)"

definition endswith :: "string \<Rightarrow> string \<Rightarrow> bool" where
  "endswith s p = (length p \<le> length s \<and> drop (length s - length p) s = p)"

definition path_join :: "string \<Rightarrow> string \<Rightarrow> string" where
  "path_join a b =
     (if startswith b ''/'' then b
      else if a = [] \<or> endswith a ''/'' then a @ b
      else a @ ''/'' @ b)"

text \<open>
  An f-string renders an integer epoch in decimal, with a minus sign when it is
  negative.
\<close>

fun dec_digits :: "nat \<Rightarrow> nat list" where
  "dec_digits n = (if n < 10 then [n] else dec_digits (n div 10) @ [n mod 10])"

declare dec_digits.simps [simp del]

definition digit_char :: "nat \<Rightarrow> char" where
  "digit_char d = char_of (48 + d)"

definition str_nat :: "nat \<Rightarrow> string" where
  "str_nat n = map digit_char (dec_digits n)"

definition str_int :: "int \<Rightarrow> string" where
  "str_int i = (if i < 0 then CHR ''-'' # str_nat (nat (- i)) else str_nat (nat i))"

text \<open>
  \<open>difflib.get_close_matches(word, possibilities, n=1, cutoff=c)\<close>: every possibility
  whose similarity to \<open>word\<close> is at least \<open>c\<close> is kept with its score, and
  \<open>heapq.nlargest(1, result)\<close> returns the greatest (score, string) pair, the first
  one among equals, or nothing when no possibility was kept. The similarity is
  \<open>SequenceMatcher.ratio\<close> of the standard library, a parameter here; its two quick
  variants are upper bounds of it, so the three tests of the library are the one test
  below.
\<close>

definition nlargest1 :: "('a::linorder) list \<Rightarrow> 'a list" where
  "nlargest1 xs =
     (case xs of [] \<Rightarrow> []
      | x # rest \<Rightarrow> [fold (\<lambda>y m. if m < y then y else m) rest x])"

definition get_close_matches ::
  "(string \<Rightarrow> string \<Rightarrow> real) \<Rightarrow> string \<Rightarrow> string list \<Rightarrow> real \<Rightarrow> string list" where
  "get_close_matches ratio word possibilities cutoff =
     map snd (nlargest1 (map (\<lambda>x. (ratio x word, x))
       (filter (\<lambda>x. ratio x word \<ge> cutoff) possibilities)))"

section \<open>ModelCheckpoint\<close>

datatype error = IndexError | ValueError string "string list"

record ModelCheckpoint =
  slurm_job_id :: string
  save_path :: string
  monitor :: string
  mode :: string
  save_best_only :: bool
  best_metric :: pyfloat
  best_epoch_mc :: int

definition ModelCheckpoint_init ::
  "string \<Rightarrow> string \<Rightarrow> string \<Rightarrow> string \<Rightarrow> bool \<Rightarrow> ModelCheckpoint" where
  "ModelCheckpoint_init job path mon md best_only =
     \<lparr>slurm_job_id = job, save_path = path, monitor = mon, mode = md,
      save_best_only = best_only,
      best_metric = (if md = ''min'' then PosInf else NegInf),
      best_epoch_mc = 0\<rparr>"

definition ModelCheckpoint_on_epoch_begin ::
  "ModelCheckpoint \<Rightarrow> kwargs \<Rightarrow> bool \<times> ModelCheckpoint" where
  "ModelCheckpoint_on_epoch_begin self kw = (False, self)"

text \<open>
  A call of \<open>torch.save(state, path)\<close> is recorded as the pair \<open>(path, state)\<close>;
  \<open>on_epoch_end\<close> returns the calls it made, in order. The \<open>ValueError\<close> carries the two
  values its message shows: the monitored key and the list of the keys of \<open>logs\<close>.
\<close>

type_synonym writes = "(string \<times> state_dict) list"

definition best_path :: "ModelCheckpoint \<Rightarrow> string" where
  "best_path self = path_join (save_path self) (slurm_job_id self @ ''.pth'')"

definition epoch_path :: "ModelCheckpoint \<Rightarrow> int \<Rightarrow> string" where
  "epoch_path self epoch =
     path_join (save_path self) (slurm_job_id self @ ''_epoch_'' @ str_int epoch @ ''.pth'')"

definition ModelCheckpoint_on_epoch_end ::
  "(string \<Rightarrow> string \<Rightarrow> real) \<Rightarrow> ModelCheckpoint \<Rightarrow> kwargs
     \<Rightarrow> error + (bool \<times> ModelCheckpoint \<times> writes)" where
  "ModelCheckpoint_on_epoch_end ratio self kw =
     (let lg = get_logs kw;
          epoch = get_epoch kw;
          model = get_model kw
      in case (if epoch = 1 \<and> monitor self \<notin> set (logs_keys lg)
               then (case get_close_matches ratio (monitor self) (logs_keys lg) 0 of
                       [] \<Rightarrow> Inl IndexError
                     | close_matches # _ \<Rightarrow>
                         if close_matches \<noteq> []
                         then Inr (self\<lparr>monitor := close_matches\<rparr>)
                         else Inl (ValueError (monitor self) (logs_keys lg)))
               else Inr self) of
           Inl e \<Rightarrow> Inl e
         | Inr self1 \<Rightarrow>
             (let current_metric = logs_get lg (monitor self1) PosInf
              in if save_best_only self1
                 then if (mode self1 = ''min'' \<and> flt current_metric (best_metric self1))
                         \<or> (mode self1 = ''max'' \<and> fgt current_metric (best_metric self1))
                      then Inr (False,
                                self1\<lparr>best_metric := current_metric, best_epoch_mc := epoch\<rparr>,
                                [(best_path self1, model)])
                      else Inr (False, self1, [])
                 else Inr (False, self1, [(epoch_path self1 epoch, model)])))"

text \<open>
  A run of the training loop: the calls in order, stopped by the first one that
  raises. The writes of all the calls are collected in the order they were made.
\<close>

fun ModelCheckpoint_run ::
  "(string \<Rightarrow> string \<Rightarrow> real) \<Rightarrow> ModelCheckpoint \<Rightarrow> kwargs list
     \<Rightarrow> error + (bool list \<times> ModelCheckpoint \<times> writes)" where
  "ModelCheckpoint_run ratio self [] = Inr ([], self, [])"
| "ModelCheckpoint_run ratio self (kw # kws) =
     (case ModelCheckpoint_on_epoch_end ratio self kw of
        Inl e \<Rightarrow> Inl e
      | Inr (b, self', ws) \<Rightarrow>
          (case ModelCheckpoint_run ratio self' kws of
             Inl e \<Rightarrow> Inl e
           | Inr (bs, self'', ws') \<Rightarrow> Inr (b # bs, self'', ws @ ws')))"

text \<open>The file system after a sequence of writes: a later write to a path replaces
  what an earlier one put there.\<close>

type_synonym filesystem = "string \<rightharpoonup> state_dict"

fun apply_writes :: "filesystem \<Rightarrow> writes \<Rightarrow> filesystem" where
  "apply_writes fs [] = fs"
| "apply_writes fs ((p, sd) # ws) = apply_writes (fs(p \<mapsto> sd)) ws"

section \<open>Notions the properties use\<close>


text \<open>
  A strict improvement of the monitored value on the best seen: strictly less in
  \<open>"min"\<close> mode, strictly greater in \<open>"max"\<close> mode.
\<close>

definition improves :: "string \<Rightarrow> pyfloat \<Rightarrow> pyfloat \<Rightarrow> bool" where
  "improves md current best =
     (if md = ''min'' then flt current best
      else if md = ''max'' then fgt current best
      else False)"

text \<open>The value a callback reads for a key: the logged one, or \<open>+inf\<close>.\<close>

definition logged :: "kwargs \<Rightarrow> string \<Rightarrow> pyfloat option" where
  "logged kw k = map_of (get_logs kw) k"

text \<open>
  The two phases of \<open>ModelCheckpoint.on_epoch_end\<close>, named so that each can be reasoned
  about alone: the lookup of the monitored key at epoch 1 (lines 119 to 130 of the
  source) and the saving that follows it (lines 132 to 153). That the method is the
  first followed by the second is lemma \<open>on_epoch_end_phases\<close>.
\<close>

definition monitor_fallback ::
  "(string \<Rightarrow> string \<Rightarrow> real) \<Rightarrow> ModelCheckpoint \<Rightarrow> logs \<Rightarrow> int \<Rightarrow> error + ModelCheckpoint" where
  "monitor_fallback ratio self lg epoch =
     (if epoch = 1 \<and> monitor self \<notin> set (logs_keys lg)
      then (case get_close_matches ratio (monitor self) (logs_keys lg) 0 of
              [] \<Rightarrow> Inl IndexError
            | close_matches # _ \<Rightarrow>
                if close_matches \<noteq> []
                then Inr (self\<lparr>monitor := close_matches\<rparr>)
                else Inl (ValueError (monitor self) (logs_keys lg)))
      else Inr self)"

definition save_phase ::
  "ModelCheckpoint \<Rightarrow> logs \<Rightarrow> int \<Rightarrow> state_dict \<Rightarrow> bool \<times> ModelCheckpoint \<times> writes" where
  "save_phase self lg epoch model =
     (let current_metric = logs_get lg (monitor self) PosInf
      in if save_best_only self
         then if (mode self = ''min'' \<and> flt current_metric (best_metric self))
                 \<or> (mode self = ''max'' \<and> fgt current_metric (best_metric self))
              then (False, self\<lparr>best_metric := current_metric, best_epoch_mc := epoch\<rparr>,
                    [(best_path self, model)])
              else (False, self, [])
         else (False, self, [(epoch_path self epoch, model)]))"

section \<open>Facts about float comparison\<close>

lemma fle_not_flt: "fle a b \<Longrightarrow> \<not> flt b a"
  by (cases a; cases b) auto

lemma flt_irrefl: "\<not> flt a a"
  by (cases a) auto





lemma es_read: "logged kw (metric_name self) = Some v \<Longrightarrow>
  logs_get (get_logs kw) (metric_name self) PosInf = v"
  by (simp add: logged_def logs_get_def)


section \<open>EarlyStopping: one call\<close>




text \<open>
  C2. A logged \<open>val_loss\<close> in the closed band from \<open>best_loss - delta\<close> to
  \<open>best_loss + delta\<close> leaves the counter and \<open>best_loss\<close> (the whole instance) unchanged,
  and the call returns False.
\<close>

theorem plateau_ignored:
  "logged kw (metric_name self) = Some v \<Longrightarrow>
   fle (fsub (best_loss self) (delta self)) v \<Longrightarrow>
   fle v (fadd (best_loss self) (delta self)) \<Longrightarrow>
   EarlyStopping_on_epoch_end self kw = (False, self)"
  by (simp add: EarlyStopping_on_epoch_end_def es_read fgt_def fle_not_flt)

theorem plateau_ignored_witness:
  "logged (val_loss_call (Fin 1.2)) (metric_name (EarlyStopping_init 3 (Fin 0.5)\<lparr>best_loss := Fin 1, counter := 2\<rparr>)) = Some (Fin 1.2)
   \<and> fle (fsub (Fin 1) (Fin 0.5)) (Fin 1.2)
   \<and> fle (Fin 1.2) (fadd (Fin 1) (Fin 0.5))
   \<and> EarlyStopping_on_epoch_end (EarlyStopping_init 3 (Fin 0.5)\<lparr>best_loss := Fin 1, counter := 2\<rparr>) (val_loss_call (Fin 1.2))
     = (False, EarlyStopping_init 3 (Fin 0.5)\<lparr>best_loss := Fin 1, counter := 2\<rparr>)"
  using plateau_ignored
    [of "val_loss_call (Fin 1.2)" "EarlyStopping_init 3 (Fin 0.5)\<lparr>best_loss := Fin 1, counter := 2\<rparr>" "Fin 1.2"]
  by (simp add: logged_def val_loss_call_def get_logs_def EarlyStopping_init_def fsub_def)

section \<open>EarlyStopping: runs\<close>












section \<open>Facts about the library functions\<close>

lemma fold_max_mem: "fold (\<lambda>y m. if m < y then y else m) rest x \<in> set (x # rest)"
  by (induction rest arbitrary: x) (auto split: if_splits)

lemma nlargest1_Nil: "nlargest1 [] = []"
  by (simp add: nlargest1_def)

lemma nlargest1_mem: "xs \<noteq> [] \<Longrightarrow> \<exists>x \<in> set xs. nlargest1 xs = [x]"
  using fold_max_mem by (cases xs) (auto simp: nlargest1_def simp del: set_simps)

lemma get_close_matches_Nil: "get_close_matches ratio word [] cutoff = []"
  by (simp add: get_close_matches_def nlargest1_Nil)

lemma get_close_matches_mem:
  assumes "possibilities \<noteq> []" and "\<forall>x \<in> set possibilities. 0 \<le> ratio x word"
  shows "\<exists>k \<in> set possibilities. get_close_matches ratio word possibilities 0 = [k]"
proof -
  let ?kept = "filter (\<lambda>x. ratio x word \<ge> 0) possibilities"
  have kept: "?kept = possibilities" using assms(2) by simp
  let ?scored = "map (\<lambda>x. (ratio x word, x)) possibilities"
  have "?scored \<noteq> []" using assms(1) by simp
  then obtain p where p: "p \<in> set ?scored" "nlargest1 ?scored = [p]"
    using nlargest1_mem by blast
  then have "snd p \<in> set possibilities" by auto
  moreover have "get_close_matches ratio word possibilities 0 = [snd p]"
    using p(2) kept by (simp add: get_close_matches_def)
  ultimately show ?thesis by blast
qed

lemma dec_digits_lt: "n < 10 \<Longrightarrow> dec_digits n = [n]"
  by (subst dec_digits.simps) simp

lemma dec_digits_ge: "\<not> n < 10 \<Longrightarrow> dec_digits n = dec_digits (n div 10) @ [n mod 10]"
  by (subst dec_digits.simps) simp

lemma dec_digits_nonempty: "dec_digits n \<noteq> []"
  by (cases "n < 10") (simp_all add: dec_digits_lt dec_digits_ge)

lemma dec_digits_small: "d \<in> set (dec_digits n) \<Longrightarrow> d < 10"
proof (induction n rule: dec_digits.induct)
  case (1 n)
  then show ?case
    by (cases "n < 10") (auto simp: dec_digits_lt dec_digits_ge)
qed

lemma dec_digits_inj: "dec_digits n = dec_digits m \<Longrightarrow> n = m"
proof (induction n arbitrary: m rule: dec_digits.induct)
  case (1 n)
  show ?case
  proof (cases "n < 10")
    case True
    then have n: "dec_digits n = [n]" by (rule dec_digits_lt)
    show ?thesis
    proof (cases "m < 10")
      case True
      then have "dec_digits m = [m]" by (rule dec_digits_lt)
      with n "1.prems" show ?thesis by simp
    next
      case False
      then have "dec_digits m = dec_digits (m div 10) @ [m mod 10]"
        by (rule dec_digits_ge)
      with n "1.prems" dec_digits_nonempty [of "m div 10"] show ?thesis by simp
    qed
  next
    case False
    then have n: "dec_digits n = dec_digits (n div 10) @ [n mod 10]"
      by (rule dec_digits_ge)
    show ?thesis
    proof (cases "m < 10")
      case True
      then have "dec_digits m = [m]" by (rule dec_digits_lt)
      with n "1.prems" dec_digits_nonempty [of "n div 10"] show ?thesis by simp
    next
      case m: False
      then have "dec_digits m = dec_digits (m div 10) @ [m mod 10]"
        by (rule dec_digits_ge)
      with n "1.prems" have eq: "dec_digits (n div 10) = dec_digits (m div 10)"
        and md: "n mod 10 = m mod 10" by simp_all
      from False eq have "n div 10 = m div 10" by (rule "1.IH")
      with md show ?thesis by (metis div_mult_mod_eq)
    qed
  qed
qed

lemma digit_char_inj: "a < 10 \<Longrightarrow> b < 10 \<Longrightarrow> digit_char a = digit_char b \<Longrightarrow> a = b"
proof -
  assume a: "a < 10" and b: "b < 10" and eq: "digit_char a = digit_char b"
  from eq have "(of_char (digit_char a) :: nat) = of_char (digit_char b)" by simp
  with a b show "a = b" by (simp add: digit_char_def)
qed

lemma digit_char_not_minus: "a < 10 \<Longrightarrow> digit_char a \<noteq> CHR ''-''"
proof
  assume a: "a < 10" and eq: "digit_char a = CHR ''-''"
  from eq have "(of_char (digit_char a) :: nat) = of_char CHR ''-''" by simp
  with a show False by (simp add: digit_char_def)
qed

lemma str_nat_inj: "str_nat n = str_nat m \<Longrightarrow> n = m"
proof -
  assume eq: "str_nat n = str_nat m"
  have "inj_on digit_char (set (dec_digits n) \<union> set (dec_digits m))"
    by (rule inj_onI) (auto dest: dec_digits_small intro: digit_char_inj)
  with eq have "dec_digits n = dec_digits m"
    unfolding str_nat_def by (rule map_inj_on)
  then show "n = m" by (rule dec_digits_inj)
qed

lemma str_nat_no_minus: "str_nat n \<noteq> CHR ''-'' # s"
proof
  assume eq: "str_nat n = CHR ''-'' # s"
  obtain d ds where ds: "dec_digits n = d # ds"
    using dec_digits_nonempty [of n] by (cases "dec_digits n") auto
  then have "d < 10" using dec_digits_small [of d n] by simp
  moreover from eq ds have "digit_char d = CHR ''-''" by (simp add: str_nat_def)
  ultimately show False using digit_char_not_minus by blast
qed

lemma str_int_inj: "str_int i = str_int j \<Longrightarrow> i = j"
proof -
  assume eq: "str_int i = str_int j"
  show "i = j"
  proof (cases "i < 0"; cases "j < 0")
    assume "i < 0" "j < 0"
    with eq have "nat (- i) = nat (- j)" by (simp add: str_int_def str_nat_inj)
    with \<open>i < 0\<close> \<open>j < 0\<close> show ?thesis by simp
  next
    assume "i < 0" "\<not> j < 0"
    with eq show ?thesis
      using str_nat_no_minus [of "nat j" "str_nat (nat (- i))"] by (simp add: str_int_def)
  next
    assume "\<not> i < 0" "j < 0"
    with eq show ?thesis
      using str_nat_no_minus [of "nat i" "str_nat (nat (- j))"] by (simp add: str_int_def)
  next
    assume "\<not> i < 0" "\<not> j < 0"
    with eq have "nat i = nat j" by (simp add: str_int_def str_nat_inj)
    with \<open>\<not> i < 0\<close> \<open>\<not> j < 0\<close> show ?thesis by simp
  qed
qed

lemma startswith_prefix:
  "startswith (j @ ''_epoch_'' @ s) ''/'' = startswith (j @ ''_epoch_'') ''/''"
  by (cases j) (simp_all add: startswith_def)

lemma path_join_epoch_inj:
  assumes "path_join a (j @ ''_epoch_'' @ s @ ''.pth'') = path_join a (j @ ''_epoch_'' @ t @ ''.pth'')"
  shows "s = t"
proof -
  have st: "startswith (j @ ''_epoch_'' @ s @ ''.pth'') ''/''
            = startswith (j @ ''_epoch_'' @ t @ ''.pth'') ''/''"
    using startswith_prefix [of j "s @ ''.pth''"] startswith_prefix [of j "t @ ''.pth''"]
    by simp
  from assms st show ?thesis
    by (simp add: path_join_def split: if_splits)
qed

lemma epoch_path_inj: "epoch_path self e1 = epoch_path self e2 \<Longrightarrow> e1 = e2"
  unfolding epoch_path_def by (drule path_join_epoch_inj) (rule str_int_inj)


section \<open>ModelCheckpoint: one call\<close>

lemma on_epoch_end_phases:
  "ModelCheckpoint_on_epoch_end ratio self kw =
     (case monitor_fallback ratio self (get_logs kw) (get_epoch kw) of
        Inl e \<Rightarrow> Inl e
      | Inr self1 \<Rightarrow> Inr (save_phase self1 (get_logs kw) (get_epoch kw) (get_model kw)))"
  by (simp add: ModelCheckpoint_on_epoch_end_def monitor_fallback_def save_phase_def Let_def
      split: list.splits sum.splits)

lemma monitor_fallback_skip:
  "epoch \<noteq> 1 \<or> monitor self \<in> set (logs_keys lg) \<Longrightarrow> monitor_fallback ratio self lg epoch = Inr self"
  by (auto simp: monitor_fallback_def)

lemma monitor_fallback_config:
  "monitor_fallback ratio self lg epoch = Inr self1 \<Longrightarrow>
   self1 = self\<lparr>monitor := monitor self1\<rparr>"
  by (auto simp: monitor_fallback_def split: if_splits list.splits)

lemma save_phase_False: "fst (save_phase self lg epoch model) = False"
  by (simp add: save_phase_def Let_def)

lemma save_phase_state:
  "fst (snd (save_phase self lg epoch model)) =
     (if save_best_only self \<and> improves (mode self) (logs_get lg (monitor self) PosInf) (best_metric self)
      then self\<lparr>best_metric := logs_get lg (monitor self) PosInf, best_epoch_mc := epoch\<rparr>
      else self)"
  by (simp add: save_phase_def improves_def Let_def)

lemma save_phase_writes:
  "snd (snd (save_phase self lg epoch model)) =
     (if save_best_only self
      then if improves (mode self) (logs_get lg (monitor self) PosInf) (best_metric self)
           then [(best_path self, model)] else []
      else [(epoch_path self epoch, model)])"
  by (simp add: save_phase_def improves_def Let_def)

lemma on_epoch_end_Inr:
  assumes "ModelCheckpoint_on_epoch_end ratio self kw = Inr (b, self', ws)"
  shows "\<exists>self1. monitor_fallback ratio self (get_logs kw) (get_epoch kw) = Inr self1
           \<and> self1 = self\<lparr>monitor := monitor self1\<rparr>
           \<and> (b, self', ws) = save_phase self1 (get_logs kw) (get_epoch kw) (get_model kw)"
proof (cases "monitor_fallback ratio self (get_logs kw) (get_epoch kw)")
  case (Inl e)
  with assms show ?thesis by (simp add: on_epoch_end_phases)
next
  case (Inr self1)
  with assms monitor_fallback_config [OF Inr] show ?thesis
    by (simp add: on_epoch_end_phases)
qed

lemma on_epoch_end_config:
  assumes "ModelCheckpoint_on_epoch_end ratio self kw = Inr (b, self', ws)"
  shows "slurm_job_id self' = slurm_job_id self \<and> save_path self' = save_path self
         \<and> mode self' = mode self \<and> save_best_only self' = save_best_only self
         \<and> best_path self' = best_path self \<and> (\<forall>e. epoch_path self' e = epoch_path self e)"
proof -
  from on_epoch_end_Inr [OF assms] obtain self1 where
    c: "self1 = self\<lparr>monitor := monitor self1\<rparr>"
    and r: "(b, self', ws) = save_phase self1 (get_logs kw) (get_epoch kw) (get_model kw)"
    by blast
  from r have "self' = fst (snd (save_phase self1 (get_logs kw) (get_epoch kw) (get_model kw)))"
    by (metis fst_conv snd_conv)
  then have "slurm_job_id self' = slurm_job_id self1 \<and> save_path self' = save_path self1
         \<and> mode self' = mode self1 \<and> save_best_only self' = save_best_only self1"
    by (simp add: save_phase_state)
  moreover have "slurm_job_id self1 = slurm_job_id self \<and> save_path self1 = save_path self
         \<and> mode self1 = mode self \<and> save_best_only self1 = save_best_only self"
    by (subst c, simp)+
  ultimately show ?thesis by (simp add: best_path_def epoch_path_def)
qed

lemma on_epoch_end_no_fallback:
  assumes "get_epoch kw \<noteq> 1 \<or> monitor self \<in> set (logs_keys (get_logs kw))"
  shows "ModelCheckpoint_on_epoch_end ratio self kw
           = Inr (save_phase self (get_logs kw) (get_epoch kw) (get_model kw))"
  using monitor_fallback_skip [OF assms] by (simp add: on_epoch_end_phases)

lemma mc_run_no_fallback:
  "\<forall>kw \<in> set kws. get_epoch kw \<noteq> 1 \<Longrightarrow>
   \<exists>bs self' ws. ModelCheckpoint_run ratio self kws = Inr (bs, self', ws)
      \<and> monitor self' = monitor self"
proof (induction kws arbitrary: self)
  case Nil
  then show ?case by simp
next
  case (Cons kw kws)
  let ?r = "save_phase self (get_logs kw) (get_epoch kw) (get_model kw)"
  have step: "ModelCheckpoint_on_epoch_end ratio self kw = Inr ?r"
    using Cons.prems by (intro on_epoch_end_no_fallback) simp
  have m: "monitor (fst (snd ?r)) = monitor self"
    by (simp add: save_phase_state)
  from Cons.prems have "\<forall>kw \<in> set kws. get_epoch kw \<noteq> 1" by simp
  from Cons.IH [OF this, of "fst (snd ?r)"] obtain bs self' ws where
    "ModelCheckpoint_run ratio (fst (snd ?r)) kws = Inr (bs, self', ws)"
    "monitor self' = monitor (fst (snd ?r))" by blast
  with step m show ?case
    by (cases ?r) auto
qed

section \<open>ModelCheckpoint: the monitored key\<close>

text \<open>
  C3, evaluated on the code. At epoch 1 with empty logs, \<open>get_close_matches\<close> returns
  the empty list and the subscript \<open>[0]\<close> raises \<open>IndexError\<close>; the branch that raises
  the \<open>ValueError\<close> naming the monitored key and the available keys is not reached.
\<close>

theorem empty_logs_raise_IndexError:
  "ModelCheckpoint_on_epoch_end ratio (ModelCheckpoint_init job path mon md best_only)
     \<lparr>kw_logs = Some [], kw_epoch = Some 1, kw_model = m\<rparr> = Inl IndexError"
  by (simp add: on_epoch_end_phases monitor_fallback_def get_logs_def get_epoch_def
      logs_keys_def get_close_matches_Nil)

text \<open>
  C10 as stated fails when the closest key is the empty string: the lookup returns it,
  the test \<open>if close_matches\<close> takes it for no match, and the call raises \<open>ValueError\<close>
  instead of reassigning \<open>monitor\<close>.
\<close>

theorem empty_key_counterexample:
  "get_logs \<lparr>kw_logs = Some [('''', Fin 1)], kw_epoch = Some 1, kw_model = None\<rparr> \<noteq> []
   \<and> monitor (ModelCheckpoint_init ''42'' ''ckpt'' ''val_loss'' ''min'' True)
       \<notin> set (logs_keys [('''', Fin 1)])
   \<and> ModelCheckpoint_on_epoch_end (\<lambda>a b. 0)
       (ModelCheckpoint_init ''42'' ''ckpt'' ''val_loss'' ''min'' True)
       \<lparr>kw_logs = Some [('''', Fin 1)], kw_epoch = Some 1, kw_model = None\<rparr>
     = Inl (ValueError ''val_loss'' [''''])"
  by (simp add: on_epoch_end_phases monitor_fallback_def get_logs_def get_epoch_def
      logs_keys_def get_close_matches_def nlargest1_def ModelCheckpoint_init_def)

text \<open>
  C10 (as amended). If \<open>on_epoch_end\<close> is called with epoch 1 and non-empty logs that do
  not contain \<open>monitor\<close>, the closest-match lookup with cutoff 0 returns one key of
  those logs (similarity scores are never negative); when that key is not the empty
  string the call returns and has reassigned \<open>monitor\<close> to it, and when it is the empty
  string the call raises \<open>ValueError\<close>. At any epoch other than 1 the call returns with
  \<open>monitor\<close> unchanged, whether the key is in the logs or not, so the reassigned key is
  the one read in all later epochs.
\<close>

theorem monitor_fallback_at_epoch_1:
  "(get_epoch kw = 1 \<and> get_logs kw \<noteq> [] \<and> monitor self \<notin> set (logs_keys (get_logs kw))
      \<and> (\<forall>k \<in> set (logs_keys (get_logs kw)). 0 \<le> ratio k (monitor self))
    \<longrightarrow> (\<exists>k \<in> set (logs_keys (get_logs kw)).
           get_close_matches ratio (monitor self) (logs_keys (get_logs kw)) 0 = [k]
           \<and> (if k \<noteq> []
              then ModelCheckpoint_on_epoch_end ratio self kw
                     = Inr (save_phase (self\<lparr>monitor := k\<rparr>) (get_logs kw) 1 (get_model kw))
                   \<and> monitor (fst (snd (save_phase (self\<lparr>monitor := k\<rparr>) (get_logs kw) 1
                        (get_model kw)))) = k
              else ModelCheckpoint_on_epoch_end ratio self kw
                     = Inl (ValueError (monitor self) (logs_keys (get_logs kw))))))
   \<and> (get_epoch kw \<noteq> 1
    \<longrightarrow> (\<exists>b self' ws. ModelCheckpoint_on_epoch_end ratio self kw = Inr (b, self', ws)
           \<and> monitor self' = monitor self))
   \<and> ((\<forall>kw \<in> set kws. get_epoch kw \<noteq> 1)
    \<longrightarrow> (\<exists>bs self' ws. ModelCheckpoint_run ratio self kws = Inr (bs, self', ws)
           \<and> monitor self' = monitor self))"
proof (intro conjI impI)
  assume h: "get_epoch kw = 1 \<and> get_logs kw \<noteq> [] \<and> monitor self \<notin> set (logs_keys (get_logs kw))
      \<and> (\<forall>k \<in> set (logs_keys (get_logs kw)). 0 \<le> ratio k (monitor self))"
  then have ne: "logs_keys (get_logs kw) \<noteq> []" by (simp add: logs_keys_def)
  from get_close_matches_mem [OF ne] h obtain k where
    k: "k \<in> set (logs_keys (get_logs kw))"
       "get_close_matches ratio (monitor self) (logs_keys (get_logs kw)) 0 = [k]"
    by blast
  have "if k \<noteq> []
        then ModelCheckpoint_on_epoch_end ratio self kw
               = Inr (save_phase (self\<lparr>monitor := k\<rparr>) (get_logs kw) 1 (get_model kw))
             \<and> monitor (fst (snd (save_phase (self\<lparr>monitor := k\<rparr>) (get_logs kw) 1
                  (get_model kw)))) = k
        else ModelCheckpoint_on_epoch_end ratio self kw
               = Inl (ValueError (monitor self) (logs_keys (get_logs kw)))"
    using h k(2) by (simp add: on_epoch_end_phases monitor_fallback_def save_phase_state)
  with k show "\<exists>k \<in> set (logs_keys (get_logs kw)).
           get_close_matches ratio (monitor self) (logs_keys (get_logs kw)) 0 = [k]
           \<and> (if k \<noteq> []
              then ModelCheckpoint_on_epoch_end ratio self kw
                     = Inr (save_phase (self\<lparr>monitor := k\<rparr>) (get_logs kw) 1 (get_model kw))
                   \<and> monitor (fst (snd (save_phase (self\<lparr>monitor := k\<rparr>) (get_logs kw) 1
                        (get_model kw)))) = k
              else ModelCheckpoint_on_epoch_end ratio self kw
                     = Inl (ValueError (monitor self) (logs_keys (get_logs kw))))"
    by blast
next
  assume e: "get_epoch kw \<noteq> 1"
  let ?r = "save_phase self (get_logs kw) (get_epoch kw) (get_model kw)"
  have "ModelCheckpoint_on_epoch_end ratio self kw = Inr ?r"
    using e by (intro on_epoch_end_no_fallback) simp
  moreover have "monitor (fst (snd ?r)) = monitor self"
    by (simp add: save_phase_state)
  ultimately show "\<exists>b self' ws. ModelCheckpoint_on_epoch_end ratio self kw = Inr (b, self', ws)
           \<and> monitor self' = monitor self"
    by (cases ?r) auto
next
  assume "\<forall>kw \<in> set kws. get_epoch kw \<noteq> 1"
  then show "\<exists>bs self' ws. ModelCheckpoint_run ratio self kws = Inr (bs, self', ws)
           \<and> monitor self' = monitor self"
    by (rule mc_run_no_fallback)
qed

theorem monitor_fallback_at_epoch_1_witness:
  "get_epoch \<lparr>kw_logs = Some [(''loss'', Fin 1), (''acc'', Fin 2)], kw_epoch = Some 1, kw_model = None\<rparr> = 1
   \<and> get_logs \<lparr>kw_logs = Some [(''loss'', Fin 1), (''acc'', Fin 2)], kw_epoch = Some 1, kw_model = None\<rparr> \<noteq> []
   \<and> ''val_loss'' \<notin> set (logs_keys [(''loss'', Fin 1), (''acc'', Fin 2)])
   \<and> get_close_matches (\<lambda>a b. 0) ''val_loss'' [''loss'', ''acc''] 0 = [''loss'']
   \<and> ModelCheckpoint_on_epoch_end (\<lambda>a b. 0)
        (ModelCheckpoint_init ''42'' ''ckpt'' ''val_loss'' ''min'' True)
        \<lparr>kw_logs = Some [(''loss'', Fin 1), (''acc'', Fin 2)], kw_epoch = Some 1, kw_model = None\<rparr>
      = Inr (False,
             \<lparr>slurm_job_id = ''42'', save_path = ''ckpt'', monitor = ''loss'', mode = ''min'',
              save_best_only = True, best_metric = Fin 1, best_epoch_mc = 1\<rparr>,
             [(''ckpt/42.pth'', [])])
   \<and> get_epoch \<lparr>kw_logs = Some [(''loss'', Fin 1)], kw_epoch = Some 2, kw_model = None\<rparr> \<noteq> 1
   \<and> (\<exists>b self' ws. ModelCheckpoint_on_epoch_end (\<lambda>a b. 0)
          (ModelCheckpoint_init ''42'' ''ckpt'' ''val_loss'' ''min'' True)
          \<lparr>kw_logs = Some [(''loss'', Fin 1)], kw_epoch = Some 2, kw_model = None\<rparr>
        = Inr (b, self', ws) \<and> monitor self' = ''val_loss'')
   \<and> (\<exists>bs self' ws. ModelCheckpoint_run (\<lambda>a b. 0)
          (ModelCheckpoint_init ''42'' ''ckpt'' ''val_loss'' ''min'' True)
          [\<lparr>kw_logs = Some [(''loss'', Fin 1)], kw_epoch = Some 2, kw_model = None\<rparr>]
        = Inr (bs, self', ws) \<and> monitor self' = ''val_loss'')"
proof -
  let ?kw2 = "\<lparr>kw_logs = Some [(''loss'', Fin 1)], kw_epoch = Some 2, kw_model = None\<rparr>"
  let ?kw = "\<lparr>kw_logs = Some [(''loss'', Fin 1), (''acc'', Fin 2)], kw_epoch = Some 1, kw_model = None\<rparr>"
  let ?self = "ModelCheckpoint_init ''42'' ''ckpt'' ''val_loss'' ''min'' True"
  have keys: "logs_keys (get_logs ?kw) = [''loss'', ''acc'']"
    by (simp add: logs_keys_def get_logs_def)
  have h: "get_epoch ?kw = 1 \<and> get_logs ?kw \<noteq> [] \<and> monitor ?self \<notin> set (logs_keys (get_logs ?kw))
      \<and> (\<forall>k \<in> set (logs_keys (get_logs ?kw)). 0 \<le> (\<lambda>a b. 0::real) k (monitor ?self))"
    by (simp add: keys) (simp add: get_epoch_def get_logs_def ModelCheckpoint_init_def)
  have g: "get_close_matches (\<lambda>a b. 0) ''val_loss'' [''loss'', ''acc''] 0 = [''loss'']"
    by (simp add: get_close_matches_def nlargest1_def)
  have m: "monitor ?self = ''val_loss''" by (simp add: ModelCheckpoint_init_def)
  from monitor_fallback_at_epoch_1 [of ?kw ?self "\<lambda>a b. 0" "[]"] h
  have "\<exists>k \<in> set (logs_keys (get_logs ?kw)).
           get_close_matches (\<lambda>a b. 0) (monitor ?self) (logs_keys (get_logs ?kw)) 0 = [k]
           \<and> (if k \<noteq> []
              then ModelCheckpoint_on_epoch_end (\<lambda>a b. 0) ?self ?kw
                     = Inr (save_phase (?self\<lparr>monitor := k\<rparr>) (get_logs ?kw) 1 (get_model ?kw))
                   \<and> monitor (fst (snd (save_phase (?self\<lparr>monitor := k\<rparr>) (get_logs ?kw) 1
                        (get_model ?kw)))) = k
              else ModelCheckpoint_on_epoch_end (\<lambda>a b. 0) ?self ?kw
                     = Inl (ValueError (monitor ?self) (logs_keys (get_logs ?kw))))"
    by blast
  then have "ModelCheckpoint_on_epoch_end (\<lambda>a b. 0) ?self ?kw
       = Inr (save_phase (?self\<lparr>monitor := ''loss''\<rparr>) (get_logs ?kw) 1 (get_model ?kw))"
    unfolding keys m g by auto
  moreover have "save_phase (?self\<lparr>monitor := ''loss''\<rparr>) (get_logs ?kw) 1 (get_model ?kw)
      = (False,
             \<lparr>slurm_job_id = ''42'', save_path = ''ckpt'', monitor = ''loss'', mode = ''min'',
              save_best_only = True, best_metric = Fin 1, best_epoch_mc = 1\<rparr>,
             [(''ckpt/42.pth'', [])])"
    by (simp add: save_phase_def ModelCheckpoint_init_def get_logs_def get_model_def logs_get_def
        best_path_def path_join_def startswith_def endswith_def)
  ultimately have first: "ModelCheckpoint_on_epoch_end (\<lambda>a b. 0) ?self ?kw
      = Inr (False,
             \<lparr>slurm_job_id = ''42'', save_path = ''ckpt'', monitor = ''loss'', mode = ''min'',
              save_best_only = True, best_metric = Fin 1, best_epoch_mc = 1\<rparr>,
             [(''ckpt/42.pth'', [])])"
    by simp
  have e2: "get_epoch ?kw2 \<noteq> 1" by (simp add: get_epoch_def)
  then have a2: "\<forall>kw \<in> set [?kw2]. get_epoch kw \<noteq> 1" by simp
  from monitor_fallback_at_epoch_1 [of ?kw2 ?self "\<lambda>a b. 0" "[?kw2]"] e2 a2
  have later: "(\<exists>b self' ws. ModelCheckpoint_on_epoch_end (\<lambda>a b. 0) ?self ?kw2
                   = Inr (b, self', ws) \<and> monitor self' = monitor ?self)
               \<and> (\<exists>bs self' ws. ModelCheckpoint_run (\<lambda>a b. 0) ?self [?kw2]
                   = Inr (bs, self', ws) \<and> monitor self' = monitor ?self)"
    by blast
  have k: "''val_loss'' \<notin> set (logs_keys [(''loss'', Fin 1), (''acc'', Fin 2)])"
    by (simp add: logs_keys_def)
  from h g first e2 later k show ?thesis
    unfolding m by blast
qed




text \<open>
  In \<open>"max"\<close> mode the same default is not the worst value but the best: a missing key
  at a later epoch reads \<open>+inf\<close>, which is greater than any finite \<open>best_metric\<close>, so the
  checkpoint is saved and \<open>best_metric\<close> becomes \<open>+inf\<close>.
\<close>

lemma missing_metric_max_mode_saves:
  "ModelCheckpoint_on_epoch_end ratio
     (ModelCheckpoint_init ''42'' ''ckpt'' ''val_acc'' ''max'' True\<lparr>best_metric := Fin 0.9\<rparr>)
     \<lparr>kw_logs = Some [], kw_epoch = Some 2, kw_model = None\<rparr>
   = Inr (False,
          \<lparr>slurm_job_id = ''42'', save_path = ''ckpt'', monitor = ''val_acc'', mode = ''max'',
           save_best_only = True, best_metric = PosInf, best_epoch_mc = 2\<rparr>,
          [(''ckpt/42.pth'', [])])"
  by (simp add: on_epoch_end_phases monitor_fallback_def save_phase_def get_logs_def
      get_epoch_def get_model_def logs_get_def ModelCheckpoint_init_def fgt_def best_path_def
      path_join_def startswith_def endswith_def)

section \<open>The return values\<close>

text \<open>
  C8 as stated fails for \<open>ModelCheckpoint.on_epoch_end\<close>: at epoch 1, when the monitored
  key is missing and the only key of the logs is the empty string, the call does not
  return False, it raises.
\<close>

theorem checkpoint_raises_counterexample:
  "ModelCheckpoint_on_epoch_end (\<lambda>a b. 0)
     (ModelCheckpoint_init ''job'' ''out'' ''val_acc'' ''max'' False)
     \<lparr>kw_logs = Some [('''', Fin 0)], kw_epoch = Some 1, kw_model = Some []\<rparr>
   = Inl (ValueError ''val_acc'' [''''])"
  by (simp add: on_epoch_end_phases monitor_fallback_def get_logs_def get_epoch_def
      logs_keys_def get_close_matches_def nlargest1_def ModelCheckpoint_init_def)

text \<open>
  C8 (as amended). \<open>on_epoch_begin\<close> of EarlyStopping and of ModelCheckpoint returns False
  and leaves the instance unchanged, for every input. \<open>ModelCheckpoint.on_epoch_end\<close>
  never returns True: whenever it returns, it returns False, and it does return at every
  epoch other than 1 and whenever the monitored key is in the logs.
\<close>

theorem callbacks_do_not_stop:
  "EarlyStopping_on_epoch_begin es kw = (False, es)
   \<and> ModelCheckpoint_on_epoch_begin mc kw = (False, mc)
   \<and> ModelCheckpoint_on_epoch_end ratio mc kw \<noteq> Inr (True, mc', ws)
   \<and> (get_epoch kw \<noteq> 1 \<or> monitor mc \<in> set (logs_keys (get_logs kw))
      \<longrightarrow> (\<exists>mc'' ws'. ModelCheckpoint_on_epoch_end ratio mc kw = Inr (False, mc'', ws')))"
proof (intro conjI impI)
  show "EarlyStopping_on_epoch_begin es kw = (False, es)"
    by (simp add: EarlyStopping_on_epoch_begin_def)
  show "ModelCheckpoint_on_epoch_begin mc kw = (False, mc)"
    by (simp add: ModelCheckpoint_on_epoch_begin_def)
  show "ModelCheckpoint_on_epoch_end ratio mc kw \<noteq> Inr (True, mc', ws)"
  proof
    assume "ModelCheckpoint_on_epoch_end ratio mc kw = Inr (True, mc', ws)"
    from on_epoch_end_Inr [OF this] obtain self1 where
      "(True, mc', ws) = save_phase self1 (get_logs kw) (get_epoch kw) (get_model kw)"
      by blast
    then have "fst (save_phase self1 (get_logs kw) (get_epoch kw) (get_model kw)) = True"
      by (metis fst_conv)
    then show False by (simp add: save_phase_False)
  qed
next
  assume h: "get_epoch kw \<noteq> 1 \<or> monitor mc \<in> set (logs_keys (get_logs kw))"
  let ?r = "save_phase mc (get_logs kw) (get_epoch kw) (get_model kw)"
  have "ModelCheckpoint_on_epoch_end ratio mc kw = Inr ?r"
    using h by (rule on_epoch_end_no_fallback)
  moreover have "fst ?r = False" by (rule save_phase_False)
  ultimately show "\<exists>mc'' ws'. ModelCheckpoint_on_epoch_end ratio mc kw = Inr (False, mc'', ws')"
    by (cases ?r) auto
qed

theorem callbacks_do_not_stop_witness:
  "get_epoch \<lparr>kw_logs = Some [], kw_epoch = Some 2, kw_model = None\<rparr> \<noteq> 1
   \<and> EarlyStopping_on_epoch_begin (EarlyStopping_init 2 (Fin 0))
        \<lparr>kw_logs = Some [], kw_epoch = Some 2, kw_model = None\<rparr>
      = (False, EarlyStopping_init 2 (Fin 0))
   \<and> (\<exists>mc'' ws'. ModelCheckpoint_on_epoch_end (\<lambda>a b. 0)
        (ModelCheckpoint_init ''42'' ''ckpt'' ''val_loss'' ''min'' True)
        \<lparr>kw_logs = Some [], kw_epoch = Some 2, kw_model = None\<rparr> = Inr (False, mc'', ws'))"
proof -
  let ?kw = "\<lparr>kw_logs = Some [], kw_epoch = Some 2, kw_model = None\<rparr>"
  have e: "get_epoch ?kw \<noteq> 1" by (simp add: get_epoch_def)
  from callbacks_do_not_stop
         [of "EarlyStopping_init 2 (Fin 0)" ?kw
             "ModelCheckpoint_init ''42'' ''ckpt'' ''val_loss'' ''min'' True" "\<lambda>a b. 0"] e
  show ?thesis by blast
qed

section \<open>ModelCheckpoint: what is written\<close>

lemma on_epoch_end_result:
  assumes "ModelCheckpoint_on_epoch_end ratio self kw = Inr (b, self', ws)"
  shows "ws = (if save_best_only self
               then if improves (mode self) (logs_get (get_logs kw) (monitor self') PosInf)
                         (best_metric self)
                    then [(best_path self, get_model kw)] else []
               else [(epoch_path self (get_epoch kw), get_model kw)])
         \<and> best_metric self' =
             (if save_best_only self
                 \<and> improves (mode self) (logs_get (get_logs kw) (monitor self') PosInf)
                      (best_metric self)
              then logs_get (get_logs kw) (monitor self') PosInf else best_metric self)"
proof -
  from on_epoch_end_Inr [OF assms] obtain self1 where
    c: "self1 = self\<lparr>monitor := monitor self1\<rparr>"
    and r: "(b, self', ws) = save_phase self1 (get_logs kw) (get_epoch kw) (get_model kw)"
    by blast
  have f: "save_best_only self1 = save_best_only self" "mode self1 = mode self"
    "best_metric self1 = best_metric self" "best_path self1 = best_path self"
    "epoch_path self1 (get_epoch kw) = epoch_path self (get_epoch kw)"
    unfolding best_path_def epoch_path_def by (subst c, simp)+
  from r [symmetric]
  have s: "self' = fst (snd (save_phase self1 (get_logs kw) (get_epoch kw) (get_model kw)))"
    and w: "ws = snd (snd (save_phase self1 (get_logs kw) (get_epoch kw) (get_model kw)))"
    by simp_all
  from s have m: "monitor self' = monitor self1" by (simp add: save_phase_state)
  from w have "ws = (if save_best_only self
               then if improves (mode self) (logs_get (get_logs kw) (monitor self') PosInf)
                         (best_metric self)
                    then [(best_path self, get_model kw)] else []
               else [(epoch_path self (get_epoch kw), get_model kw)])"
    by (simp add: save_phase_writes f m)
  moreover from s have "best_metric self' =
             (if save_best_only self
                 \<and> improves (mode self) (logs_get (get_logs kw) (monitor self') PosInf)
                      (best_metric self)
              then logs_get (get_logs kw) (monitor self') PosInf else best_metric self)"
    by (simp add: save_phase_state f m)
  ultimately show ?thesis by simp
qed

lemma mc_run_Cons:
  assumes "ModelCheckpoint_run ratio self (kw # kws) = Inr (bs, self'', wss)"
  shows "\<exists>b self' ws bs' ws'. ModelCheckpoint_on_epoch_end ratio self kw = Inr (b, self', ws)
           \<and> ModelCheckpoint_run ratio self' kws = Inr (bs', self'', ws')
           \<and> bs = b # bs' \<and> wss = ws @ ws'"
  using assms by (auto split: sum.splits prod.splits)


lemma mc_run_every_epoch:
  "ModelCheckpoint_run ratio self kws = Inr (bs, self'', wss) \<Longrightarrow> \<not> save_best_only self \<Longrightarrow>
   wss = map (\<lambda>kw. (epoch_path self (get_epoch kw), get_model kw)) kws"
proof (induction kws arbitrary: self bs wss)
  case Nil
  then show ?case by simp
next
  case (Cons kw kws)
  from mc_run_Cons [OF Cons.prems(1)] obtain b self' ws bs' ws' where
    step: "ModelCheckpoint_on_epoch_end ratio self kw = Inr (b, self', ws)"
    and rest: "ModelCheckpoint_run ratio self' kws = Inr (bs', self'', ws')"
    and wss: "wss = ws @ ws'" by blast
  from on_epoch_end_config [OF step] Cons.prems(2)
  have cfg: "\<not> save_best_only self'" "\<forall>e. epoch_path self' e = epoch_path self e" by simp_all
  from Cons.IH [OF rest cfg(1)] cfg(2)
  have a: "ws' = map (\<lambda>kw. (epoch_path self (get_epoch kw), get_model kw)) kws" by simp
  from on_epoch_end_result [OF step] Cons.prems(2)
  have b: "ws = [(epoch_path self (get_epoch kw), get_model kw)]" by simp
  from a b wss show ?case by simp
qed

lemma apply_writes_other: "p \<notin> fst ` set ws \<Longrightarrow> apply_writes fs ws p = fs p"
  by (induction ws arbitrary: fs) auto

lemma apply_writes_kept:
  "distinct (map fst ws) \<Longrightarrow> w \<in> set ws \<Longrightarrow> apply_writes fs ws (fst w) = Some (snd w)"
proof (induction ws arbitrary: fs)
  case Nil
  then show ?case by simp
next
  case (Cons x ws)
  obtain p sd where x: "x = (p, sd)" by (cases x)
  show ?case
  proof (cases "w = x")
    case True
    with Cons.prems(1) x have "p \<notin> fst ` set ws" by simp
    then have "apply_writes (fs(p \<mapsto> sd)) ws p = (fs(p \<mapsto> sd)) p"
      by (rule apply_writes_other)
    with True x show ?thesis by simp
  next
    case False
    with Cons.prems have "distinct (map fst ws)" "w \<in> set ws" by simp_all
    then have "apply_writes (fs(p \<mapsto> sd)) ws (fst w) = Some (snd w)" by (rule Cons.IH)
    with x show ?thesis by simp
  qed
qed





text \<open>
  C6 as stated fails at epoch 1 when the monitored key is missing and the logs are
  empty: the call raises before anything is saved, so this call writes no file.
\<close>

theorem every_epoch_counterexample:
  "\<not> save_best_only (ModelCheckpoint_init ''42'' ''ckpt'' ''val_loss'' ''min'' False)
   \<and> ModelCheckpoint_on_epoch_end (\<lambda>a b. 0)
       (ModelCheckpoint_init ''42'' ''ckpt'' ''val_loss'' ''min'' False)
       \<lparr>kw_logs = Some [], kw_epoch = Some 1, kw_model = Some [(''w'', Tensor [1] [1])]\<rparr>
     = Inl IndexError"
  by (simp add: on_epoch_end_phases monitor_fallback_def get_logs_def get_epoch_def
      logs_keys_def get_close_matches_Nil ModelCheckpoint_init_def)

text \<open>
  C6 (as amended). Without \<open>save_best_only\<close>, every call of \<open>on_epoch_end\<close> that returns
  has written exactly one weight file, whatever the monitored value, to the path
  \<open>os.path.join(save_path, job_id + "_epoch_" + N + ".pth")\<close> of its epoch \<open>N\<close>; the call
  returns at every epoch other than 1 and whenever the monitored key is in the logs.
  Distinct epochs have distinct paths, so in a run over distinct epochs the files
  are distinct and each still holds what was written to it.
\<close>

theorem every_epoch_saves_one_file:
  "\<not> save_best_only self \<longrightarrow>
     (ModelCheckpoint_on_epoch_end ratio self kw = Inr (b, self', ws) \<longrightarrow>
        ws = [(epoch_path self (get_epoch kw), get_model kw)])
     \<and> (get_epoch kw \<noteq> 1 \<or> monitor self \<in> set (logs_keys (get_logs kw)) \<longrightarrow>
          ModelCheckpoint_on_epoch_end ratio self kw
            = Inr (False, self, [(epoch_path self (get_epoch kw), get_model kw)]))
     \<and> (epoch_path self e1 = epoch_path self e2 \<longrightarrow> e1 = e2)
     \<and> (ModelCheckpoint_run ratio self kws = Inr (bs, self'', wss) \<longrightarrow>
          wss = map (\<lambda>kw. (epoch_path self (get_epoch kw), get_model kw)) kws
          \<and> (distinct (map get_epoch kws) \<longrightarrow>
               distinct (map fst wss)
               \<and> (\<forall>w \<in> set wss. apply_writes fs wss (fst w) = Some (snd w))))"
proof (intro impI conjI)
  assume every: "\<not> save_best_only self"
  {
    assume step: "ModelCheckpoint_on_epoch_end ratio self kw = Inr (b, self', ws)"
    from on_epoch_end_result [OF step] every
    show "ws = [(epoch_path self (get_epoch kw), get_model kw)]" by simp
  }
  {
    assume "get_epoch kw \<noteq> 1 \<or> monitor self \<in> set (logs_keys (get_logs kw))"
    then have "ModelCheckpoint_on_epoch_end ratio self kw
                 = Inr (save_phase self (get_logs kw) (get_epoch kw) (get_model kw))"
      by (rule on_epoch_end_no_fallback)
    then show "ModelCheckpoint_on_epoch_end ratio self kw
            = Inr (False, self, [(epoch_path self (get_epoch kw), get_model kw)])"
      using every by (simp add: save_phase_def)
  }
  {
    assume "epoch_path self e1 = epoch_path self e2"
    then show "e1 = e2" by (rule epoch_path_inj)
  }
  assume run: "ModelCheckpoint_run ratio self kws = Inr (bs, self'', wss)"
  from mc_run_every_epoch [OF run every]
  show all: "wss = map (\<lambda>kw. (epoch_path self (get_epoch kw), get_model kw)) kws" .
  assume d: "distinct (map get_epoch kws)"
  have "inj (epoch_path self)" by (rule injI) (rule epoch_path_inj)
  then have "distinct (map (epoch_path self) (map get_epoch kws))"
    using d by (simp only: distinct_map) (auto intro: inj_on_subset)
  then show dist: "distinct (map fst wss)"
    by (simp add: all comp_def)
  show "\<forall>w \<in> set wss. apply_writes fs wss (fst w) = Some (snd w)"
    using dist by (blast intro: apply_writes_kept)
qed

theorem every_epoch_saves_one_file_witness:
  "\<not> save_best_only (ModelCheckpoint_init ''42'' ''ckpt'' ''val_loss'' ''min'' False)
   \<and> (get_epoch \<lparr>kw_logs = Some [], kw_epoch = Some 2, kw_model = Some [(''w'', Tensor [2] [5, 6])]\<rparr> \<noteq> 1)
   \<and> ModelCheckpoint_on_epoch_end (\<lambda>a b. 0)
       (ModelCheckpoint_init ''42'' ''ckpt'' ''val_loss'' ''min'' False)
       \<lparr>kw_logs = Some [], kw_epoch = Some 2, kw_model = Some [(''w'', Tensor [2] [5, 6])]\<rparr>
     = Inr (False, ModelCheckpoint_init ''42'' ''ckpt'' ''val_loss'' ''min'' False,
            [(''ckpt/42_epoch_2.pth'', [(''w'', Tensor [2] [5, 6])])])
   \<and> ModelCheckpoint_run (\<lambda>a b. 0) (ModelCheckpoint_init ''42'' ''ckpt'' ''val_loss'' ''min'' False)
       [\<lparr>kw_logs = Some [(''val_loss'', Fin 1)], kw_epoch = Some 1,
         kw_model = Some [(''w'', Tensor [2] [3, 4])]\<rparr>,
        \<lparr>kw_logs = Some [], kw_epoch = Some 2, kw_model = Some [(''w'', Tensor [2] [5, 6])]\<rparr>]
     = Inr ([False, False], ModelCheckpoint_init ''42'' ''ckpt'' ''val_loss'' ''min'' False,
            [(''ckpt/42_epoch_1.pth'', [(''w'', Tensor [2] [3, 4])]),
             (''ckpt/42_epoch_2.pth'', [(''w'', Tensor [2] [5, 6])])])
   \<and> distinct (map get_epoch
       [\<lparr>kw_logs = Some [(''val_loss'', Fin 1)], kw_epoch = Some 1,
         kw_model = Some [(''w'', Tensor [2] [3, 4])]\<rparr>,
        \<lparr>kw_logs = Some [], kw_epoch = Some 2, kw_model = Some [(''w'', Tensor [2] [5, 6])]\<rparr>])
   \<and> apply_writes Map.empty
        [(''ckpt/42_epoch_1.pth'', [(''w'', Tensor [2] [3, 4])]),
         (''ckpt/42_epoch_2.pth'', [(''w'', Tensor [2] [5, 6])])] ''ckpt/42_epoch_1.pth''
      = Some [(''w'', Tensor [2] [3, 4])]"
proof -
  let ?self = "ModelCheckpoint_init ''42'' ''ckpt'' ''val_loss'' ''min'' False"
  let ?kw1 = "\<lparr>kw_logs = Some [(''val_loss'', Fin 1)], kw_epoch = Some 1,
         kw_model = Some [(''w'', Tensor [2] [3, 4])]\<rparr>"
  let ?kw2 = "\<lparr>kw_logs = Some [], kw_epoch = Some 2, kw_model = Some [(''w'', Tensor [2] [5, 6])]\<rparr>"
  let ?w1 = "(''ckpt/42_epoch_1.pth'', [(''w'', Tensor [2] [3, 4])])"
  let ?w2 = "(''ckpt/42_epoch_2.pth'', [(''w'', Tensor [2] [5, 6])])"
  have h: "\<not> save_best_only ?self" by (simp add: ModelCheckpoint_init_def)
  have e: "get_epoch ?kw2 \<noteq> 1" by (simp add: get_epoch_def)
  have d: "distinct (map get_epoch [?kw1, ?kw2])" by (simp add: get_epoch_def)
  have p1: "epoch_path ?self 1 = ''ckpt/42_epoch_1.pth''"
    by code_simp
  have p2: "epoch_path ?self 2 = ''ckpt/42_epoch_2.pth''"
    by code_simp
  have m: "monitor ?self \<in> set (logs_keys (get_logs ?kw1))"
    by (simp add: get_logs_def logs_keys_def ModelCheckpoint_init_def)
  have g: "get_epoch ?kw1 = 1" "get_epoch ?kw2 = 2"
    "get_model ?kw1 = [(''w'', Tensor [2] [3, 4])]" "get_model ?kw2 = [(''w'', Tensor [2] [5, 6])]"
    by (simp_all add: get_epoch_def get_model_def)
  from every_epoch_saves_one_file
         [of ?self "\<lambda>a b. 0" ?kw2 False ?self "[?w2]" 1 2 "[?kw1, ?kw2]" "[False, False]" ?self
             "[?w1, ?w2]" Map.empty] h e
  have "ModelCheckpoint_on_epoch_end (\<lambda>a b. 0) ?self ?kw2
          = Inr (False, ?self, [(epoch_path ?self (get_epoch ?kw2), get_model ?kw2)])"
    by blast
  then have step: "ModelCheckpoint_on_epoch_end (\<lambda>a b. 0) ?self ?kw2 = Inr (False, ?self, [?w2])"
    by (simp only: g p2)
  from every_epoch_saves_one_file
         [of ?self "\<lambda>a b. 0" ?kw1 False ?self "[?w1]" 1 2 "[?kw1, ?kw2]" "[False, False]" ?self
             "[?w1, ?w2]" Map.empty] h m
  have "ModelCheckpoint_on_epoch_end (\<lambda>a b. 0) ?self ?kw1
          = Inr (False, ?self, [(epoch_path ?self (get_epoch ?kw1), get_model ?kw1)])"
    by blast
  then have s1: "ModelCheckpoint_on_epoch_end (\<lambda>a b. 0) ?self ?kw1 = Inr (False, ?self, [?w1])"
    by (simp only: g p1)
  have run: "ModelCheckpoint_run (\<lambda>a b. 0) ?self [?kw1, ?kw2] = Inr ([False, False], ?self, [?w1, ?w2])"
    by (simp only: ModelCheckpoint_run.simps s1 step sum.case prod.case append.simps)
  from every_epoch_saves_one_file
         [of ?self "\<lambda>a b. 0" ?kw2 False ?self "[?w2]" 1 2 "[?kw1, ?kw2]" "[False, False]" ?self
             "[?w1, ?w2]" Map.empty] h run d
  have "\<forall>w \<in> set [?w1, ?w2]. apply_writes Map.empty [?w1, ?w2] (fst w) = Some (snd w)"
    by blast
  then have "apply_writes Map.empty [?w1, ?w2] (fst ?w1) = Some (snd ?w1)"
    by (simp del: apply_writes.simps)
  then have "apply_writes Map.empty [?w1, ?w2] ''ckpt/42_epoch_1.pth'' = Some [(''w'', Tensor [2] [3, 4])]"
    by (simp only: fst_conv snd_conv)
  with h e step run d show ?thesis by blast
qed

end
